theory Spec2Isabelle
  imports Complex_Main
begin

section \<open>Impact calculations service (impactCalculations.ts)\<close>

text \<open>
  The service works on JavaScript numbers. They are modelled as real numbers: the
  arithmetic of the model is exact, and the rounding, overflow, infinities and NaN of
  IEEE doubles are not part of it. Where a library function of the source has no finite
  real result (a negative base under a fractional exponent, a logarithm of a number that
  is not positive) the model is not meaningful, and the theorems below that depend on such
  a value carry the hypotheses that exclude it.
\<close>

subsection \<open>Constants\<close>

definition ASTEROID_DENSITY :: real where
  "ASTEROID_DENSITY = 2000"

definition TNT_ENERGY :: real where
  "TNT_ENERGY = 4.184 * 10 ^ 12"

definition EARTH_OCEAN_COVERAGE :: real where
  "EARTH_OCEAN_COVERAGE = 0.71"

subsection \<open>The library functions of \<open>Math\<close>\<close>

text \<open>
  \<open>Math.pow\<close>: any base to the exponent zero is one; a base that is not negative is
  raised by \<open>powr\<close> (zero to a positive exponent is zero); a negative base to an integer
  exponent takes its sign from the parity of the exponent. Two cases have no finite real
  result in the source and are outside the model: a negative base to a fractional exponent
  (NaN, here 0) and zero to a negative exponent (Infinity, here 0).
\<close>

definition Math_pow :: "real \<Rightarrow> real \<Rightarrow> real" where
  "Math_pow x y =
     (if y = 0 then 1
      else if 0 \<le> x then x powr y
      else if y = of_int \<lfloor>y\<rfloor> then (if even \<lfloor>y\<rfloor> then (- x) powr y else - ((- x) powr y))
      else 0)"

text \<open>
  \<open>Math.log10\<close> of a positive number; of zero the source gives \<open>-Infinity\<close> and of a
  negative number NaN, both outside the model.
\<close>

definition Math_log10 :: "real \<Rightarrow> real" where
  "Math_log10 x = log 10 x"

text \<open>\<open>Math.round\<close> rounds to the nearest integer, a tie towards plus infinity.\<close>

definition Math_round :: "real \<Rightarrow> real" where
  "Math_round x = of_int \<lfloor>x + 1 / 2\<rfloor>"

text \<open>
  \<open>Math.random\<close> reads a source of numbers and moves it on. The source is the sequence
  of all the numbers it will give, with the count of those already taken.
\<close>

record RandomSource =
  draws :: "nat \<Rightarrow> real"
  used :: nat

definition Math_random :: "RandomSource \<Rightarrow> real \<times> RandomSource" where
  "Math_random s = (draws s (used s), s\<lparr>used := Suc (used s)\<rparr>)"

text \<open>A source that gives the same number at every draw, none taken yet.\<close>

definition constantSource :: "real \<Rightarrow> RandomSource" where
  "constantSource r = \<lparr>draws = (\<lambda>n. r), used = 0\<rparr>"

text \<open>A source that gives \<open>a\<close> at its first draw and \<open>b\<close> at every later one.\<close>

definition twoValueSource :: "real \<Rightarrow> real \<Rightarrow> RandomSource" where
  "twoValueSource a b = \<lparr>draws = (\<lambda>n. if n = 0 then a else b), used = 0\<rparr>"

subsection \<open>The stages of the calculation\<close>

definition calculateMass :: "real \<Rightarrow> real" where
  "calculateMass diameter =
     (let radius = diameter / 2;
          volume = (4 / 3) * pi * Math_pow radius 3
      in volume * ASTEROID_DENSITY)"

definition calculateEnergy :: "real \<Rightarrow> real \<Rightarrow> real" where
  "calculateEnergy mass velocity =
     (let velocityMs = velocity * 1000;
          energyJoules = 0.5 * mass * Math_pow velocityMs 2;
          energyMegatons = energyJoules / TNT_ENERGY
      in energyMegatons)"

text \<open>The second parameter, \<open>_velocity\<close> in the source, is not used in the body.\<close>

definition calculateCraterDiameter :: "real \<Rightarrow> real \<Rightarrow> real \<Rightarrow> bool \<Rightarrow> real" where
  "calculateCraterDiameter energy unused_velocity angle isOcean =
     (let angleRadians = (angle * pi) / 180;
          angleEfficiency = Math_pow (sin angleRadians) 0.3;
          terrainFactor = (if isOcean then 0.7 else 1.0);
          scalingConstant = 0.8;
          diameterKm = scalingConstant * Math_pow energy 0.33 * angleEfficiency * terrainFactor
      in max 0.1 diameterKm)"

definition calculateCraterDepth :: "real \<Rightarrow> real" where
  "calculateCraterDepth diameter = diameter / 4"

definition calculateShockwaveRadius :: "real \<Rightarrow> real" where
  "calculateShockwaveRadius energy = Math_pow energy 0.33 * 2.5"

definition calculateThermalRadius :: "real \<Rightarrow> real" where
  "calculateThermalRadius energy = Math_pow energy 0.41 * 3.2"

definition calculateSeismicMagnitude :: "real \<Rightarrow> real" where
  "calculateSeismicMagnitude energy =
     (let energyJoules = energy * 1000000 * TNT_ENERGY
      in (2 / 3) * Math_log10 energyJoules - 2.9)"

text \<open>
  The function \<open>isOceanImpact\<close> of the source; the name without suffix is the field of
  \<open>ImpactResults\<close>. A box that matches returns at once and leaves the random source as
  it was.
\<close>

definition isOceanImpact_fn :: "real \<Rightarrow> real \<Rightarrow> RandomSource \<Rightarrow> bool \<times> RandomSource" where
  "isOceanImpact_fn lat lon s =
     (if (lon > 120 \<or> lon < - 70) \<and> \<bar>lat\<bar> < 60 then (True, s)
      else if lon > - 70 \<and> lon < - 10 \<and> \<bar>lat\<bar> < 60 then (True, s)
      else if lon > 40 \<and> lon < 120 \<and> lat < 20 \<and> lat > - 50 then (True, s)
      else (let (r, s') = Math_random s in (r < EARTH_OCEAN_COVERAGE, s')))"

text \<open>The parameter \<open>waterDepth\<close> has the default 4000, which the only caller takes.\<close>

definition calculateTsunamiHeight :: "real \<Rightarrow> real \<Rightarrow> real \<Rightarrow> real" where
  "calculateTsunamiHeight energy craterDiameter waterDepth =
     (let energyFactor = Math_pow energy 0.25;
          craterFactor = craterDiameter * 1000;
          initialHeight = min (craterFactor / 10) (waterDepth * 0.5)
      in initialHeight * energyFactor * 0.1)"

definition getPopulationDensity :: "real \<Rightarrow> real \<Rightarrow> RandomSource \<Rightarrow> real \<times> RandomSource" where
  "getPopulationDensity lat lon s =
     (let baseDensity = (50::real);
          absLat = \<bar>lat\<bar>;
          baseDensity =
            (if absLat < 30 then 200
             else if absLat < 50 then 150
             else if absLat < 70 then 20
             else 1);
          baseDensity =
            (if lon > - 180 \<and> lon < - 50 then baseDensity * 0.8
             else if lon > - 50 \<and> lon < 50 then baseDensity * 1.2
             else if lon > 50 \<and> lon < 150 then baseDensity * 1.5
             else baseDensity * 0.3);
          (r, s') = Math_random s;
          variation = 0.5 + r
      in (max 1 (baseDensity * variation), s'))"

definition estimateAffectedPopulation ::
    "real \<Rightarrow> real \<Rightarrow> real \<Rightarrow> real \<Rightarrow> RandomSource \<Rightarrow> real \<times> RandomSource" where
  "estimateAffectedPopulation lat lon shockwaveRadius thermalRadius s =
     (let (density, s') = getPopulationDensity lat lon s;
          affectedArea = pi * Math_pow (max shockwaveRadius thermalRadius) 2
      in (Math_round (density * affectedArea), s'))"

subsection \<open>The input and the result of the main calculation\<close>

text \<open>
  The interfaces \<open>AsteroidData\<close> and \<open>ImpactResults\<close>. They stand after the stages
  because their field names are the parameter names of the stages.
\<close>

record AsteroidData =
  diameter :: real
  velocity :: real
  angle :: real
  impactLat :: real
  impactLon :: real

text \<open>The optional field \<open>tsunamiHeight\<close> is \<open>None\<close> while it is absent from the object.\<close>

record ImpactResults =
  mass :: real
  energy :: real
  craterDiameter :: real
  craterDepth :: real
  shockwaveRadius :: real
  seismicMagnitude :: real
  thermalRadius :: real
  isOceanImpact :: bool
  tsunamiHeight :: "real option"
  affectedPopulation :: real

text \<open>
  An \<open>async\<close> function returns a promise, which is fulfilled with the returned value or
  rejected with the value that was thrown.
\<close>

datatype 'a Promise = is_Fulfilled: Fulfilled (result: 'a) | Rejected (reason: string)

subsection \<open>The main calculation\<close>

definition calculateImpact :: "AsteroidData \<Rightarrow> RandomSource \<Rightarrow> ImpactResults Promise \<times> RandomSource" where
  "calculateImpact data s =
     (let mass = calculateMass (diameter data);
          energy = calculateEnergy mass (velocity data);
          (isOcean, s1) = isOceanImpact_fn (impactLat data) (impactLon data) s;
          craterDiameter = calculateCraterDiameter energy (velocity data) (angle data) isOcean;
          craterDepth = calculateCraterDepth craterDiameter;
          shockwaveRadius = calculateShockwaveRadius energy;
          thermalRadius = calculateThermalRadius energy;
          seismicMagnitude = calculateSeismicMagnitude energy;
          (affectedPopulation, s2) =
            estimateAffectedPopulation (impactLat data) (impactLon data)
              shockwaveRadius thermalRadius s1;
          results =
            \<lparr>mass = mass,
             energy = energy,
             craterDiameter = craterDiameter,
             craterDepth = craterDepth,
             shockwaveRadius = shockwaveRadius,
             seismicMagnitude = seismicMagnitude,
             thermalRadius = thermalRadius,
             isOceanImpact = isOcean,
             tsunamiHeight = None,
             affectedPopulation = affectedPopulation\<rparr>;
          results =
            (if isOcean
             then results\<lparr>tsunamiHeight := Some (calculateTsunamiHeight energy craterDiameter 4000)\<rparr>
             else results)
      in (Fulfilled results, s2))"

section \<open>Properties\<close>

subsection \<open>Auxiliary facts\<close>

lemma Math_pow_nonneg: "0 \<le> x \<Longrightarrow> y \<noteq> 0 \<Longrightarrow> Math_pow x y = x powr y"
  by (simp add: Math_pow_def)

lemma Math_pow_square: "Math_pow x 2 = x ^ 2"
proof (cases "0 \<le> x")
  case True
  then show ?thesis by (simp add: Math_pow_def)
next
  case False
  then have "0 \<le> - x" by simp
  then have "(- x) powr 2 = (- x) ^ 2" by (rule powr_numeral)
  moreover have "(2::real) = of_int \<lfloor>2::real\<rfloor>" by simp
  ultimately show ?thesis using False by (simp add: Math_pow_def)
qed

lemma Math_pow_cube_nonneg: "0 \<le> x \<Longrightarrow> Math_pow x 3 = x ^ 3"
  by (simp add: Math_pow_def)

text \<open>The energy stage divides the kinetic energy in joules by \<open>4.184 * 10 ^ 12\<close>.\<close>

lemma calculateEnergy_eq: "calculateEnergy m v = 0.5 * m * (v * 1000) ^ 2 / (4.184 * 10 ^ 12)"
  by (simp add: calculateEnergy_def Math_pow_square TNT_ENERGY_def)

lemma sin_degrees_nonneg: "0 < a \<Longrightarrow> a \<le> 90 \<Longrightarrow> 0 \<le> sin (a * pi / 180)"
  by (rule sin_ge_zero) (simp_all add: field_simps)

text \<open>What each stage that may draw leaves of the random source.\<close>

lemma isOceanImpact_fn_source:
  "snd (isOceanImpact_fn lat lon s) =
     (if ((lon > 120 \<or> lon < - 70) \<and> \<bar>lat\<bar> < 60)
         \<or> (lon > - 70 \<and> lon < - 10 \<and> \<bar>lat\<bar> < 60)
         \<or> (lon > 40 \<and> lon < 120 \<and> lat < 20 \<and> lat > - 50)
      then s else s\<lparr>used := Suc (used s)\<rparr>)"
  by (simp add: isOceanImpact_fn_def Math_random_def)

lemma getPopulationDensity_source:
  "snd (getPopulationDensity lat lon s) = s\<lparr>used := Suc (used s)\<rparr>"
  by (simp add: getPopulationDensity_def Math_random_def Let_def)

lemma estimateAffectedPopulation_source:
  "snd (estimateAffectedPopulation lat lon sw th s) = s\<lparr>used := Suc (used s)\<rparr>"
  by (simp add: estimateAffectedPopulation_def case_prod_beta getPopulationDensity_source)

lemma calculateImpact_source:
  "snd (calculateImpact data s) =
     (let s1 = snd (isOceanImpact_fn (impactLat data) (impactLon data) s)
      in s1\<lparr>used := Suc (used s1)\<rparr>)"
  by (simp add: calculateImpact_def Let_def case_prod_beta estimateAffectedPopulation_source)

text \<open>
  The main calculation has no \<open>throw\<close>: its promise is fulfilled on every input, with a
  record in which the depth is a quarter of the diameter and the tsunami height is set
  exactly on an ocean impact.
\<close>

lemma calculateImpact_result:
  "\<exists>r. fst (calculateImpact data s) = Fulfilled r
    \<and> craterDepth r = craterDiameter r / 4
    \<and> (tsunamiHeight r \<noteq> None \<longleftrightarrow> isOceanImpact r)"
  by (simp add: calculateImpact_def Let_def case_prod_beta calculateCraterDepth_def)

text \<open>
  What each stage that may draw returns: the classification reads the number at the
  position of the source when no box matches, the density always reads it.
\<close>

lemma isOceanImpact_fn_value:
  "fst (isOceanImpact_fn lat lon s) =
     (((lon > 120 \<or> lon < - 70) \<and> \<bar>lat\<bar> < 60)
       \<or> (lon > - 70 \<and> lon < - 10 \<and> \<bar>lat\<bar> < 60)
       \<or> (lon > 40 \<and> lon < 120 \<and> lat < 20 \<and> lat > - 50)
       \<or> draws s (used s) < 0.71)"
  by (auto simp add: isOceanImpact_fn_def Math_random_def EARTH_OCEAN_COVERAGE_def)

lemma getPopulationDensity_value:
  "fst (getPopulationDensity lat lon s) =
     max 1 ((if \<bar>lat\<bar> < 30 then 200 else if \<bar>lat\<bar> < 50 then 150 else if \<bar>lat\<bar> < 70 then 20 else 1)
            * (if lon > - 180 \<and> lon < - 50 then 0.8
               else if lon > - 50 \<and> lon < 50 then 1.2
               else if lon > 50 \<and> lon < 150 then 1.5
               else 0.3)
            * (0.5 + draws s (used s)))"
  by (simp add: getPopulationDensity_def Math_random_def Let_def)

lemma estimateAffectedPopulation_value:
  "fst (estimateAffectedPopulation lat lon sw th s) =
     Math_round (fst (getPopulationDensity lat lon s) * (pi * Math_pow (max sw th) 2))"
  by (simp add: estimateAffectedPopulation_def case_prod_beta)

text \<open>
  The record of the main calculation, field by field, and the source it leaves: the
  classification works on the source as given, the population on what the classification
  left.
\<close>

lemma calculateImpact_record:
  "\<exists>r. calculateImpact data s =
         (Fulfilled r,
          snd (estimateAffectedPopulation (impactLat data) (impactLon data)
                 (shockwaveRadius r) (thermalRadius r)
                 (snd (isOceanImpact_fn (impactLat data) (impactLon data) s))))
    \<and> mass r = calculateMass (diameter data)
    \<and> energy r = calculateEnergy (calculateMass (diameter data)) (velocity data)
    \<and> isOceanImpact r = fst (isOceanImpact_fn (impactLat data) (impactLon data) s)
    \<and> craterDiameter r =
        calculateCraterDiameter (energy r) (velocity data) (angle data) (isOceanImpact r)
    \<and> craterDepth r = craterDiameter r / 4
    \<and> shockwaveRadius r = calculateShockwaveRadius (energy r)
    \<and> thermalRadius r = calculateThermalRadius (energy r)
    \<and> affectedPopulation r =
        fst (estimateAffectedPopulation (impactLat data) (impactLon data)
               (shockwaveRadius r) (thermalRadius r)
               (snd (isOceanImpact_fn (impactLat data) (impactLon data) s)))"
  by (simp add: calculateImpact_def Let_def case_prod_beta calculateCraterDepth_def)

text \<open>At the angle zero the angle efficiency is zero and the crater is at its floor.\<close>

lemma calculateMass_nonneg: "0 \<le> d \<Longrightarrow> 0 \<le> calculateMass d"
  by (simp add: calculateMass_def Math_pow_cube_nonneg ASTEROID_DENSITY_def)

lemma calculateEnergy_nonneg: "0 \<le> m \<Longrightarrow> 0 \<le> calculateEnergy m v"
  by (simp add: calculateEnergy_eq)

lemma calculateCraterDiameter_angle_zero:
  "0 \<le> E \<Longrightarrow> calculateCraterDiameter E v 0 oc = 0.1"
  by (simp add: calculateCraterDiameter_def Math_pow_def)

subsection \<open>Energy and its unit\<close>

text \<open>
  C1. The claim: \<open>calculateEnergy m v\<close> is the kinetic energy \<open>0.5 * m * (1000 * v)\<^sup>2\<close> joules
  divided by the joules of one megaton of TNT, \<open>4.184 * 10 ^ 15\<close>. The kinetic energy is as
  claimed, the divisor is not: \<open>TNT_ENERGY\<close> is \<open>4.184 * 10 ^ 12\<close>, the joules of one
  kiloton, under a comment that calls it joules per megaton. At a mass of 8368 kg and
  1 km/s the kinetic energy is \<open>4.184 * 10 ^ 9\<close> joules, a millionth of a megaton; the code
  returns a thousandth.
\<close>

theorem calculateEnergy_thousandfold:
  "calculateEnergy 8368 1 = 1 / 1000
   \<and> calculateEnergy 8368 1 * (4.184 * 10 ^ 15) \<noteq> 0.5 * 8368 * (1000 * 1) ^ 2"
  by (simp add: calculateEnergy_eq)

text \<open>
  C4. The claim: for the diameter 10000 m and 20 km/s the energy of the pipeline lies
  between \<open>10 ^ 7\<close> and \<open>10 ^ 9\<close> megatons. With the divisor above the code returns
  \<open>pi * 10 ^ 15 / 62760\<close>, about \<open>5 * 10 ^ 10\<close>: more than \<open>3 * 10 ^ 10\<close> and so outside the
  claimed range. With the divisor of one megaton it would be about \<open>5 * 10 ^ 7\<close>.
\<close>

lemma chicxulub_energy: "calculateEnergy (calculateMass 10000) 20 = pi * (10 ^ 15 / 62760)"
  by (simp add: calculateEnergy_eq calculateMass_def Math_pow_cube_nonneg ASTEROID_DENSITY_def)

theorem chicxulub_energy_above_range:
  "3 * 10 ^ 10 < calculateEnergy (calculateMass 10000) 20
   \<and> \<not> calculateEnergy (calculateMass 10000) 20 \<le> 10 ^ 9"
proof -
  have "3 * 10 ^ 10 < 2 * ((10::real) ^ 15 / 62760)" by simp
  also have "\<dots> \<le> pi * (10 ^ 15 / 62760)"
    using pi_ge_two by (intro mult_right_mono) simp_all
  finally have "3 * 10 ^ 10 < calculateEnergy (calculateMass 10000) 20"
    by (simp only: chicxulub_energy)
  then show ?thesis by simp
qed

subsection \<open>Seismic magnitude\<close>

text \<open>
  The seismic stage multiplies the megatons by \<open>10 ^ 6\<close> and by \<open>TNT_ENERGY\<close>, the energy
  stage divided by \<open>TNT_ENERGY\<close> alone: what the seismic stage calls joules is a million
  times the kinetic energy, and the magnitude is 4 above \<open>(2/3) * log 10 ke - 2.9\<close>.
\<close>

lemma calculateSeismicMagnitude_of_calculateEnergy:
  assumes "0 < m" "0 < v"
  shows "calculateSeismicMagnitude (calculateEnergy m v)
           = (2 / 3) * log 10 (0.5 * m * (1000 * v) ^ 2) + 1.1"
proof -
  let ?ke = "0.5 * m * (1000 * v) ^ 2"
  have pos: "0 < ?ke" using assms by simp
  have "calculateEnergy m v * 1000000 * TNT_ENERGY = 10 ^ 6 * ?ke"
    by (simp add: calculateEnergy_eq TNT_ENERGY_def field_simps)
  then have "calculateSeismicMagnitude (calculateEnergy m v) = (2 / 3) * log 10 (10 ^ 6 * ?ke) - 2.9"
    by (simp only: calculateSeismicMagnitude_def Math_log10_def Let_def)
  also have "log 10 (10 ^ 6 * ?ke) = log 10 (10 ^ 6) + log 10 ?ke"
  proof -
    have "(10::real) ^ 6 \<noteq> 0" by simp
    moreover have "?ke \<noteq> 0" using pos by (rule less_imp_neq [THEN not_sym])
    ultimately show ?thesis by (simp only: log_mult if_True simp_thms)
  qed
  also have "log 10 ((10::real) ^ 6) = 6" using log_pow_cancel [of 10 6] by simp
  finally have "calculateSeismicMagnitude (calculateEnergy m v) = (2 / 3) * (6 + log 10 ?ke) - 2.9" .
  moreover have "(2 / 3) * (6 + L) - 2.9 = (2 / 3) * L + 1.1" for L :: real
    by (simp add: field_simps)
  ultimately show ?thesis by (simp only:)
qed

lemma seismic_joules_2_1: "calculateEnergy 2 1 * 1000000 * TNT_ENERGY = 10 ^ 12"
  by (simp add: calculateEnergy_eq TNT_ENERGY_def)

text \<open>
  C3. The claim: the joules that \<open>calculateSeismicMagnitude\<close> rebuilds from
  \<open>calculateEnergy m v\<close> are the kinetic energy again, so that the magnitude is
  \<open>(2/3) * log 10 (0.5 * m * (1000 * v)\<^sup>2) - 2.9\<close>. At 2 kg and 1 km/s the kinetic energy is
  \<open>10 ^ 6\<close> joules and the claimed magnitude 1.1; the code rebuilds \<open>10 ^ 12\<close> and returns 5.1.
\<close>

theorem calculateSeismicMagnitude_no_round_trip:
  "calculateSeismicMagnitude (calculateEnergy 2 1) = 5.1
   \<and> (2 / 3) * log 10 (0.5 * 2 * (1000 * 1) ^ 2) - 2.9 = 1.1
   \<and> calculateSeismicMagnitude (calculateEnergy 2 1)
       \<noteq> (2 / 3) * log 10 (0.5 * 2 * (1000 * 1) ^ 2) - 2.9"
proof -
  have "calculateSeismicMagnitude (calculateEnergy 2 1) = (2 / 3) * log 10 (10 ^ 12) - 2.9"
    unfolding calculateSeismicMagnitude_def Math_log10_def Let_def seismic_joules_2_1 ..
  also have "log 10 ((10::real) ^ 12) = 12" using log_pow_cancel [of 10 12] by simp
  finally have code: "calculateSeismicMagnitude (calculateEnergy 2 1) = 5.1" by simp
  have "0.5 * 2 * (1000 * 1) ^ 2 = (10::real) ^ 6" by simp
  then have "(2 / 3) * log 10 (0.5 * 2 * (1000 * 1) ^ 2) - 2.9 = (2 / 3) * log 10 ((10::real) ^ 6) - 2.9"
    by (simp only:)
  also have "log 10 ((10::real) ^ 6) = 6" using log_pow_cancel [of 10 6] by simp
  finally have claimed: "(2 / 3) * log 10 (0.5 * 2 * (1000 * 1) ^ 2) - 2.9 = 1.1" by simp
  have "(5.1::real) \<noteq> 1.1" by simp
  with code claimed show ?thesis by (simp only: simp_thms)
qed

subsection \<open>Input validation\<close>

text \<open>
  C2. The claim: for a diameter or velocity that is not positive, or an angle outside
  \<open>(0, 90]\<close>, \<open>calculateImpact\<close> raises an invalid-input error and gives no record; so
  for the angle 0. The code checks nothing. At the angle 0 (100 m, 20 km/s, on the
  Pacific) the promise is fulfilled, with the crater diameter at its floor of 0.1 km.
\<close>

theorem calculateImpact_angle_zero_fulfilled:
  "is_Fulfilled (fst (calculateImpact
      \<lparr>diameter = 100, velocity = 20, angle = 0, impactLat = 0, impactLon = 150\<rparr>
      (constantSource 0.5)))
   \<and> craterDiameter (result (fst (calculateImpact
      \<lparr>diameter = 100, velocity = 20, angle = 0, impactLat = 0, impactLon = 150\<rparr>
      (constantSource 0.5)))) = 0.1"
  by (simp add: calculateImpact_def Let_def case_prod_beta calculateCraterDiameter_def Math_pow_def)

text \<open>
  C2, as amended. For a diameter or velocity that is not positive, or an angle outside
  \<open>(0, 90]\<close>, \<open>calculateImpact\<close> raises no error: there is no validation, and the promise
  is fulfilled with a result record whose mass is \<open>calculateMass\<close> of the diameter and
  whose energy is \<open>calculateEnergy\<close> of that mass and the velocity. At the angle 0 with
  a positive diameter and velocity the record has the crater diameter at its floor of
  0.1 km and the crater depth 0.025 km. The code does not tell a valid input from an
  invalid one: the record is built by the same stages on both.
\<close>

theorem calculateImpact_no_validation:
  "diameter data \<le> 0 \<or> velocity data \<le> 0 \<or> angle data \<le> 0 \<or> 90 < angle data \<Longrightarrow>
   \<exists>r s'. calculateImpact data s = (Fulfilled r, s')
     \<and> mass r = calculateMass (diameter data)
     \<and> energy r = calculateEnergy (calculateMass (diameter data)) (velocity data)
     \<and> (0 < diameter data \<and> 0 < velocity data \<and> angle data = 0
          \<longrightarrow> craterDiameter r = 0.1 \<and> craterDepth r = 0.025)"
proof -
  obtain r where r: "calculateImpact data s =
         (Fulfilled r,
          snd (estimateAffectedPopulation (impactLat data) (impactLon data)
                 (shockwaveRadius r) (thermalRadius r)
                 (snd (isOceanImpact_fn (impactLat data) (impactLon data) s))))"
    and m: "mass r = calculateMass (diameter data)"
    and e: "energy r = calculateEnergy (calculateMass (diameter data)) (velocity data)"
    and cd: "craterDiameter r =
        calculateCraterDiameter (energy r) (velocity data) (angle data) (isOceanImpact r)"
    and dp: "craterDepth r = craterDiameter r / 4"
    using calculateImpact_record [of data s] by blast
  have "craterDiameter r = 0.1 \<and> craterDepth r = 0.025"
    if "0 < diameter data" "angle data = 0"
  proof -
    have "0 \<le> energy r"
      using that e by (simp add: calculateMass_nonneg calculateEnergy_nonneg)
    then have "craterDiameter r = 0.1"
      using cd that by (simp add: calculateCraterDiameter_angle_zero)
    then show ?thesis using dp by simp
  qed
  with r m e show ?thesis by blast
qed

theorem calculateImpact_no_validation_witness:
  "\<exists>r s'. calculateImpact
       \<lparr>diameter = 500, velocity = 20, angle = 0, impactLat = 40.7, impactLon = - 74\<rparr>
       (constantSource 0.5) = (Fulfilled r, s')
     \<and> mass r = calculateMass 500
     \<and> energy r = calculateEnergy (calculateMass 500) 20
     \<and> craterDiameter r = 0.1 \<and> craterDepth r = 0.025"
  using calculateImpact_no_validation
    [of "\<lparr>diameter = 500, velocity = 20, angle = 0, impactLat = 40.7, impactLon = - 74\<rparr>"
      "constantSource 0.5"]
  by simp

subsection \<open>Draws from the random source\<close>

text \<open>
  C5. The claim: every call of \<open>calculateImpact\<close> takes exactly two numbers from the
  random source, whatever the coordinates. The ocean classification draws only when no
  box matches. On the equator at longitude 150, inside the Pacific box, one number is
  taken, the one for the population.
\<close>

theorem calculateImpact_one_draw_in_box:
  "used (snd (calculateImpact
      \<lparr>diameter = 500, velocity = 20, angle = 45, impactLat = 0, impactLon = 150\<rparr>
      (constantSource 0.5))) = 1"
  by (simp add: calculateImpact_source isOceanImpact_fn_source Let_def constantSource_def)

text \<open>
  C5, as amended. Every call of \<open>calculateImpact\<close> takes one number for the population
  variation, and before it one for the ocean classification exactly when the coordinates
  are in none of the three boxes. Outside the boxes two numbers are taken: the first
  decides the classification (ocean when it is below 0.71), the second is the population
  variation. Inside a box one number is taken, the population variation, and the
  classification is ocean. The source is left moved on by that many numbers.
\<close>

theorem calculateImpact_draw_count:
  "let lat = impactLat data; lon = impactLon data;
       inBox = (((lon > 120 \<or> lon < - 70) \<and> \<bar>lat\<bar> < 60)
                \<or> (lon > - 70 \<and> lon < - 10 \<and> \<bar>lat\<bar> < 60)
                \<or> (lon > 40 \<and> lon < 120 \<and> lat < 20 \<and> lat > - 50));
       n = (if inBox then 0 else 1);
       band = (if \<bar>lat\<bar> < 30 then 200 else if \<bar>lat\<bar> < 50 then 150
               else if \<bar>lat\<bar> < 70 then 20 else 1);
       continent = (if lon > - 180 \<and> lon < - 50 then 0.8
                    else if lon > - 50 \<and> lon < 50 then 1.2
                    else if lon > 50 \<and> lon < 150 then 1.5
                    else 0.3)
   in \<exists>r. calculateImpact data s = (Fulfilled r, s\<lparr>used := used s + n + 1\<rparr>)
        \<and> isOceanImpact r = (inBox \<or> draws s (used s) < 0.71)
        \<and> affectedPopulation r =
            Math_round (max 1 (band * continent * (0.5 + draws s (used s + n)))
                        * (pi * Math_pow (max (shockwaveRadius r) (thermalRadius r)) 2))"
proof -
  obtain r where r: "calculateImpact data s =
         (Fulfilled r,
          snd (estimateAffectedPopulation (impactLat data) (impactLon data)
                 (shockwaveRadius r) (thermalRadius r)
                 (snd (isOceanImpact_fn (impactLat data) (impactLon data) s))))"
    and oc: "isOceanImpact r = fst (isOceanImpact_fn (impactLat data) (impactLon data) s)"
    and pop: "affectedPopulation r =
        fst (estimateAffectedPopulation (impactLat data) (impactLon data)
               (shockwaveRadius r) (thermalRadius r)
               (snd (isOceanImpact_fn (impactLat data) (impactLon data) s)))"
    using calculateImpact_record [of data s] by blast
  show ?thesis
    unfolding Let_def
    apply (rule exI [of _ r])
    apply (simp only: r oc pop estimateAffectedPopulation_source estimateAffectedPopulation_value
        getPopulationDensity_value isOceanImpact_fn_value isOceanImpact_fn_source)
    apply (simp del: max.absorb1 max.absorb2 max.absorb3 max.absorb4)
    done
qed

theorem calculateImpact_draw_count_witness:
  "\<exists>r. calculateImpact
        \<lparr>diameter = 60, velocity = 15, angle = 45, impactLat = 60.9, impactLon = 101.9\<rparr>
        (twoValueSource 0.9 0.5)
      = (Fulfilled r, (twoValueSource 0.9 0.5)\<lparr>used := 2\<rparr>)
    \<and> \<not> isOceanImpact r
    \<and> affectedPopulation r =
        Math_round (30 * (pi * Math_pow (max (shockwaveRadius r) (thermalRadius r)) 2))"
  using calculateImpact_draw_count
    [of "\<lparr>diameter = 60, velocity = 15, angle = 45, impactLat = 60.9, impactLon = 101.9\<rparr>"
      "twoValueSource 0.9 0.5"]
  by (simp add: twoValueSource_def Let_def numeral_2_eq_2)

subsection \<open>Crater\<close>

text \<open>
  C6. For an energy \<open>E \<ge> 0\<close>, an angle \<open>a\<close> in \<open>(0, 90]\<close> and an ocean flag,
  \<open>calculateCraterDiameter\<close> is the greater of 0.1 and
  \<open>0.8 * E powr 0.33 * sin (a * pi / 180) powr 0.3 * t\<close>, with \<open>t\<close> 0.7 on the ocean and 1.0 on land;
  so it is at least 0.1 km, also at the energy zero.
\<close>

theorem calculateCraterDiameter_formula:
  "0 \<le> E \<Longrightarrow> 0 < a \<Longrightarrow> a \<le> 90 \<Longrightarrow>
   calculateCraterDiameter E v a oc
     = max 0.1 (0.8 * E powr 0.33 * sin (a * pi / 180) powr 0.3 * (if oc then 0.7 else 1.0))
   \<and> 0.1 \<le> calculateCraterDiameter E v a oc"
  using sin_degrees_nonneg [of a]
  by (simp add: calculateCraterDiameter_def Math_pow_nonneg Let_def)

theorem calculateCraterDiameter_formula_witness:
  "calculateCraterDiameter 0 20 90 True
     = max 0.1 (0.8 * 0 powr 0.33 * sin (90 * pi / 180) powr 0.3 * (if True then 0.7 else 1.0))
   \<and> 0.1 \<le> calculateCraterDiameter 0 20 90 True"
  using calculateCraterDiameter_formula [of 0 90 20 True] by simp

text \<open>
  C9. \<open>calculateCraterDiameter\<close> does not depend on its velocity argument: with the same
  energy, angle and ocean flag, any two velocities give the same diameter.
\<close>

theorem calculateCraterDiameter_velocity_independent:
  "calculateCraterDiameter E v1 a oc = calculateCraterDiameter E v2 a oc"
  by (simp add: calculateCraterDiameter_def)

text \<open>
  C7. On every valid input (diameter and velocity positive, angle in \<open>(0, 90]\<close>) and every
  random source, \<open>calculateImpact\<close> gives a record whose \<open>craterDepth\<close> is its
  \<open>craterDiameter\<close> divided by 4.
\<close>

theorem calculateImpact_craterDepth:
  "0 < diameter data \<Longrightarrow> 0 < velocity data \<Longrightarrow> 0 < angle data \<Longrightarrow> angle data \<le> 90 \<Longrightarrow>
   \<exists>r s'. calculateImpact data s = (Fulfilled r, s') \<and> craterDepth r = craterDiameter r / 4"
  using calculateImpact_result [of data s] by (metis prod.collapse)

theorem calculateImpact_craterDepth_witness:
  "\<exists>r s'. calculateImpact
       \<lparr>diameter = 500, velocity = 20, angle = 45, impactLat = 40.7, impactLon = - 74\<rparr>
       (constantSource 0.5) = (Fulfilled r, s')
     \<and> craterDepth r = craterDiameter r / 4"
  using calculateImpact_craterDepth
    [of "\<lparr>diameter = 500, velocity = 20, angle = 45, impactLat = 40.7, impactLon = - 74\<rparr>"
      "constantSource 0.5"]
  by simp

subsection \<open>Ocean and tsunami\<close>

text \<open>
  C8. On every valid input and every random source, \<open>calculateImpact\<close> gives a record in
  which \<open>tsunamiHeight\<close> is present if and only if \<open>isOceanImpact\<close> is true.
\<close>

theorem calculateImpact_tsunami_iff_ocean:
  "0 < diameter data \<Longrightarrow> 0 < velocity data \<Longrightarrow> 0 < angle data \<Longrightarrow> angle data \<le> 90 \<Longrightarrow>
   \<exists>r s'. calculateImpact data s = (Fulfilled r, s')
     \<and> (tsunamiHeight r \<noteq> None \<longleftrightarrow> isOceanImpact r)"
  using calculateImpact_result [of data s] by (metis prod.collapse)

theorem calculateImpact_tsunami_iff_ocean_witness:
  "\<exists>r s'. calculateImpact
       \<lparr>diameter = 10000, velocity = 20, angle = 60, impactLat = 21.3, impactLon = - 89.5\<rparr>
       (constantSource 0.5) = (Fulfilled r, s')
     \<and> (tsunamiHeight r \<noteq> None \<longleftrightarrow> isOceanImpact r)"
  using calculateImpact_tsunami_iff_ocean
    [of "\<lparr>diameter = 10000, velocity = 20, angle = 60, impactLat = 21.3, impactLon = - 89.5\<rparr>"
      "constantSource 0.5"]
  by simp

text \<open>
  C10. At a latitude of absolute value 60 or more no ocean box matches, at any longitude:
  the classification takes one number from the random source and is ocean exactly when
  that number is below 0.71.
\<close>

theorem isOceanImpact_high_latitude_random:
  "60 \<le> \<bar>lat\<bar> \<Longrightarrow>
   isOceanImpact_fn lat lon s = (draws s (used s) < 0.71, s\<lparr>used := Suc (used s)\<rparr>)"
  by (auto simp add: isOceanImpact_fn_def Math_random_def EARTH_OCEAN_COVERAGE_def)

theorem isOceanImpact_high_latitude_random_witness:
  "isOceanImpact_fn 60.9 101.9 (constantSource 0.5) = (True, (constantSource 0.5)\<lparr>used := 1\<rparr>)"
  using isOceanImpact_high_latitude_random [of "60.9" "101.9" "constantSource 0.5"]
  by (simp add: constantSource_def)

end
